theory Spec2Isabelle
  imports Main "HOL-Library.Sublist"
begin

section \<open>Criador Mental: document model\<close>

text \<open>
  The editor component exists in two variants: \<open>Home\<close>, which keeps the pages in
  component state, and \<open>EditorScreen\<close>, which keeps them in an undo/redo history driven
  by \<open>appReducer\<close>. Both compose the generation prompt with the same code.

  JavaScript strings are modelled as \<open>string\<close>; a value that may be \<open>null\<close> or
  \<open>undefined\<close> is an \<open>option\<close>. Array indices are natural numbers, and a read
  outside the array is \<open>None\<close> (\<open>undefined\<close>).
\<close>

datatype HTMLImageElement = HTMLImageElement (src: string)

text \<open>The property names of the interface \<open>Page\<close>.\<close>

datatype PageKey =
    Key_id | Key_name | Key_keywords | Key_instructions | Key_generatedImage
  | Key_versions | Key_contextPageIds | Key_backgroundImageRef

text \<open>
  \<open>page_id\<close> is the field \<open>id\<close> of the interface \<open>Page\<close>. The field
  \<open>backgroundImageRef\<close> holds the \<open>current\<close> slot of the React ref; the effect
  that stores a loaded image there runs between events and is not part of the handlers
  modelled here.

  A JavaScript object keeps its own properties in insertion order, and
  \<open>JSON.stringify\<close> writes them in that order. \<open>keyOrder\<close> is the order of the
  properties of the page object. An object spread \<open>{...page, ...updates}\<close> whose
  updates name properties the page already has keeps the order, as a record update does;
  a page read from an imported file has the order of the file.
\<close>

record Page =
  page_id :: string
  name :: string
  "keywords" :: "string list"
  instructions :: "string list"
  generatedImage :: "string option"
  versions :: "string list"
  contextPageIds :: "string list"
  backgroundImageRef :: "HTMLImageElement option"
  keyOrder :: "PageKey list"

text \<open>The order in which the object literal of \<open>createNewPage\<close> lists the properties.\<close>

definition createdKeyOrder :: "PageKey list" where
  "createdKeyOrder =
     [Key_id, Key_name, Key_keywords, Key_instructions, Key_generatedImage, Key_versions,
      Key_contextPageIds, Key_backgroundImageRef]"

definition createNewPage :: "string \<Rightarrow> string \<Rightarrow> Page" where
  "createNewPage i n =
     \<lparr>page_id = i, name = n, keywords = [], instructions = [], generatedImage = None,
      versions = [], contextPageIds = [], backgroundImageRef = None,
      keyOrder = createdKeyOrder\<rparr>"

record EditorState =
  pages :: "Page list"
  activePageIndex :: nat

datatype mode = evolve | rethink

record FocusedItems =
  focus_keywords :: "nat list"
  focus_instructions :: "nat list"

definition noFocus :: FocusedItems where
  "noFocus = \<lparr>focus_keywords = [], focus_instructions = []\<rparr>"

subsection \<open>JavaScript helpers\<close>

text \<open>\<open>xs[i]\<close>: the element, or \<open>undefined\<close> outside the array.\<close>

definition at :: "'a list \<Rightarrow> nat \<Rightarrow> 'a option" where
  "at xs i = (if i < length xs then Some (xs ! i) else None)"

text \<open>Truthiness of a \<open>string | null | undefined\<close> value: the empty string is falsy.\<close>

definition truthy :: "string option \<Rightarrow> bool" where
  "truthy v = (case v of None \<Rightarrow> False | Some s \<Rightarrow> s \<noteq> [])"

text \<open>\<open>Array.prototype.join\<close> on an array of strings.\<close>

fun join :: "string \<Rightarrow> string list \<Rightarrow> string" where
  "join sep [] = []"
| "join sep [x] = x"
| "join sep (x # y # ys) = x @ sep @ join sep (y # ys)"

text \<open>\<open>join\<close> renders an \<open>undefined\<close> element as the empty string.\<close>

definition str_of :: "string option \<Rightarrow> string" where
  "str_of v = (case v of None \<Rightarrow> [] | Some s \<Rightarrow> s)"

definition activePage :: "'a EditorState_scheme \<Rightarrow> Page option" where
  "activePage s = at (pages s) (activePageIndex s)"

section \<open>Prompt composition (inside \<open>generateMindMap\<close>)\<close>

definition masterIntro :: string where
  \<open>masterIntro =
     ''YOUR TASK IS TO CREATE A MASTER MIND MAP. Synthesize all concepts from all '' @
     ''the user's pages into one single, cohesive drawing. Identify and visualize '' @
     ''the connections, overlaps, and high-level themes between them. The final '' @
     ''drawing must be a unified "brain" of the entire project.''\<close>

text \<open>The body of the \<open>forEach\<close> over the non-master pages.\<close>

definition masterStep :: "string \<Rightarrow> Page \<Rightarrow> string" where
  \<open>masterStep masterContext page =
     (if length (keywords page) > 0
      then masterContext @ ''\<newline>\<newline>- On page "'' @ name page @
           ''", the core concepts are: "'' @ join '', '' (keywords page) @
           ''". The instructions were: "'' @ join ''. '' (instructions page) @ ''".''
      else masterContext)\<close>

definition aiPrompt_master :: "Page list \<Rightarrow> mode \<Rightarrow> string" where
  "aiPrompt_master ps m =
     (let masterContext =
            foldl masterStep masterIntro (filter (\<lambda>p. page_id p \<noteq> ''master'') ps);
          aiPrompt = masterContext
      in if m = evolve
         then aiPrompt @ ''\<newline>\<newline>Evolve the previous master drawing with this '' @
              ''complete context. Do not start from scratch.''
         else aiPrompt)"

definition goldenRule :: "string \<Rightarrow> string" where
  \<open>goldenRule n =
     ''GOLDEN RULE: YOU MUST REPRESENT 100% OF ALL KEYWORDS AND FOLLOW 100% OF ALL '' @
     ''INSTRUCTIONS for the page "'' @ n @ ''". No concept can be ignored. Use simple '' @
     ''icons, text labels, and arrows. Maintain the hand-drawn, minimalist style '' @
     ''unless an instruction says otherwise.''\<close>

definition ruleEvolve :: "string \<Rightarrow> string" where
  \<open>ruleEvolve n =
     ''\<newline>\<newline>RULE 2: EVOLVE, DO NOT RESTART. Evolve the provided drawing for page "'' @
     n @ ''". Integrate all keywords and instructions by modifying, adding to, or '' @
     ''refining the existing visual elements.''\<close>

definition ruleFresh :: "string \<Rightarrow> string" where
  \<open>ruleFresh n =
     ''\<newline>\<newline>RULE 2: START FRESH. Generate a completely new mind map for page "'' @
     n @ ''" from a blank canvas, synthesizing all keywords and instructions.''\<close>

definition focusHeader :: string where
  "focusHeader =
     ''\<newline>\<newline>CRITICAL FOCUS FOR THIS UPDATE: The user has specifically highlighted '' @
     ''the following items. Give them maximum priority:''"

definition contextHeader :: string where
  "contextHeader =
     ''\<newline>\<newline>ADDITIONAL CONTEXT: Use the following page(s) as inspiration. Find '' @
     ''visual connections and synergies with the current page's concepts.''"

text \<open>The body of the \<open>forEach\<close> over \<open>contextPageIds\<close>.\<close>

definition contextStep :: "Page list \<Rightarrow> string \<Rightarrow> string \<Rightarrow> string" where
  \<open>contextStep ps contextPrompt pageId =
     (case find (\<lambda>p. page_id p = pageId) ps of
        None \<Rightarrow> contextPrompt
      | Some contextPage \<Rightarrow>
          contextPrompt @ ''\<newline>- From page "'' @ name contextPage @
          ''": Core concepts are "'' @ join '', '' (keywords contextPage) @
          ''". Key instructions were: "'' @ join ''. '' (instructions contextPage) @
          ''".'')\<close>

definition aiPrompt_regular :: "Page list \<Rightarrow> Page \<Rightarrow> mode \<Rightarrow> FocusedItems \<Rightarrow> string" where
  \<open>aiPrompt_regular ps page m focusedItems =
     (let allKeywords = join '', '' (keywords page);
          allInstructions = join ''. '' (instructions page);
          aiPrompt = goldenRule (name page);
          aiPrompt = (if m = evolve then aiPrompt @ ruleEvolve (name page)
                      else aiPrompt @ ruleFresh (name page));
          focusedKeywords = map (at (keywords page)) (focus_keywords focusedItems);
          focusedInstructions = map (at (instructions page)) (focus_instructions focusedItems);
          aiPrompt =
            (if length focusedKeywords > 0 \<or> length focusedInstructions > 0
             then let aiPrompt = aiPrompt @ focusHeader;
                      aiPrompt =
                        (if length focusedKeywords > 0
                         then aiPrompt @ ''\<newline>- Focused Keywords: "'' @
                              join ''", "'' (map str_of focusedKeywords) @ ''"''
                         else aiPrompt)
                  in if length focusedInstructions > 0
                     then aiPrompt @ ''\<newline>- Focused Instructions: "'' @
                          join ''", "'' (map str_of focusedInstructions) @ ''"''
                     else aiPrompt
             else aiPrompt);
          aiPrompt =
            (if length (contextPageIds page) > 0
             then let contextPrompt = foldl (contextStep ps) contextHeader (contextPageIds page)
                  in aiPrompt @ contextPrompt
             else aiPrompt);
          aiPrompt =
            (if allInstructions \<noteq> []
             then aiPrompt @ ''\<newline>\<newline>Overall instructions to follow: "'' @
                  allInstructions @ ''".''
             else aiPrompt)
      in aiPrompt @ ''\<newline>\<newline>All concepts to include: "'' @ allKeywords @ ''".'')\<close>

definition aiPrompt :: "Page list \<Rightarrow> Page \<Rightarrow> mode \<Rightarrow> FocusedItems \<Rightarrow> string" where
  "aiPrompt ps page m focusedItems =
     (if page_id page = ''master'' then aiPrompt_master ps m
      else aiPrompt_regular ps page m focusedItems)"

section \<open>Edit history (\<open>appReducer\<close>)\<close>

subsection \<open>\<open>JSON.stringify\<close> of an editor state\<close>

text \<open>
  The reducer compares snapshots through \<open>JSON.stringify\<close>. The properties of a page
  are written in the order the page object has them (\<open>keyOrder\<close>); a DOM element has
  no enumerable property of its own and is written as an empty object. The two
  properties of a snapshot are written as \<open>pages\<close>, \<open>activePageIndex\<close>: every
  snapshot is created with that order, and the spread \<open>{...present, ...action.payload}\<close>
  that the reducer compares with \<open>present\<close> has the properties in the order of
  \<open>present\<close>.
\<close>

definition hexDigit :: "nat \<Rightarrow> char" where
  "hexDigit n = ''0123456789abcdef'' ! (n mod 16)"

definition quoteChar :: "char \<Rightarrow> string" where
  "quoteChar c =
     (if c = CHR 0x22 then [CHR 0x5C, CHR 0x22]
      else if c = CHR 0x5C then [CHR 0x5C, CHR 0x5C]
      else if c = CHR 0x08 then [CHR 0x5C, CHR ''b'']
      else if c = CHR 0x09 then [CHR 0x5C, CHR ''t'']
      else if c = CHR 0x0A then [CHR 0x5C, CHR ''n'']
      else if c = CHR 0x0C then [CHR 0x5C, CHR ''f'']
      else if c = CHR 0x0D then [CHR 0x5C, CHR ''r'']
      else if (of_char c :: nat) < 32
      then [CHR 0x5C, CHR ''u'', CHR ''0'', CHR ''0'',
            hexDigit ((of_char c :: nat) div 16), hexDigit (of_char c)]
      else [c])"

definition quoteJSONString :: "string \<Rightarrow> string" where
  "quoteJSONString s = [CHR 0x22] @ concat (map quoteChar s) @ [CHR 0x22]"

fun showNat :: "nat \<Rightarrow> string" where
  "showNat n =
     (if n < 10 then [''0123456789'' ! n]
      else showNat (n div 10) @ [''0123456789'' ! (n mod 10)])"

declare showNat.simps [simp del]

definition stringifyArray :: "string list \<Rightarrow> string" where
  "stringifyArray xs = ''['' @ join '','' xs @ '']''"

definition stringifyNullable :: "string option \<Rightarrow> string" where
  "stringifyNullable v = (case v of None \<Rightarrow> ''null'' | Some s \<Rightarrow> quoteJSONString s)"

fun keyName :: "PageKey \<Rightarrow> string" where
  "keyName Key_id = ''id''"
| "keyName Key_name = ''name''"
| "keyName Key_keywords = ''keywords''"
| "keyName Key_instructions = ''instructions''"
| "keyName Key_generatedImage = ''generatedImage''"
| "keyName Key_versions = ''versions''"
| "keyName Key_contextPageIds = ''contextPageIds''"
| "keyName Key_backgroundImageRef = ''backgroundImageRef''"

text \<open>The text of the value of one property of a page.\<close>

fun stringifyValue :: "Page \<Rightarrow> PageKey \<Rightarrow> string" where
  \<open>stringifyValue p Key_id = quoteJSONString (page_id p)\<close>
| \<open>stringifyValue p Key_name = quoteJSONString (name p)\<close>
| \<open>stringifyValue p Key_keywords = stringifyArray (map quoteJSONString (keywords p))\<close>
| \<open>stringifyValue p Key_instructions =
     stringifyArray (map quoteJSONString (instructions p))\<close>
| \<open>stringifyValue p Key_generatedImage = stringifyNullable (generatedImage p)\<close>
| \<open>stringifyValue p Key_versions = stringifyArray (map quoteJSONString (versions p))\<close>
| \<open>stringifyValue p Key_contextPageIds =
     stringifyArray (map quoteJSONString (contextPageIds p))\<close>
| \<open>stringifyValue p Key_backgroundImageRef =
     ''{"current":'' @
     (case backgroundImageRef p of None \<Rightarrow> ''null'' | Some img \<Rightarrow> ''{}'') @ ''}''\<close>

definition stringifyProperty :: "Page \<Rightarrow> PageKey \<Rightarrow> string" where
  "stringifyProperty p k = quoteJSONString (keyName k) @ '':'' @ stringifyValue p k"

definition stringifyPage :: "Page \<Rightarrow> string" where
  "stringifyPage p = ''{'' @ join '','' (map (stringifyProperty p) (keyOrder p)) @ ''}''"

definition JSON_stringify :: "EditorState \<Rightarrow> string" where
  \<open>JSON_stringify s =
     ''{"pages":'' @ stringifyArray (map stringifyPage (pages s)) @
     '',"activePageIndex":'' @ showNat (activePageIndex s) @ ''}''\<close>

subsection \<open>State and actions\<close>

record EditorHistory =
  past :: "EditorState list"
  present :: EditorState
  future :: "EditorState list"

datatype appStatus = status_loading | status_auth | status_dashboard | status_editor

text \<open>
  The type \<open>'p\<close> stands for the interface \<open>Project\<close>: the actions modelled
  here never look inside a project.
\<close>

record 'p AppState =
  appStatus :: appStatus
  currentUser :: "string option"
  projects :: "'p list"
  activeProjectIndex :: "nat option"
  editor :: EditorHistory
  isLoading :: bool
  loadingMessage :: string
  errorMessage :: "string option"
  showOnboarding :: bool

text \<open>\<open>Partial<EditorState>\<close>: a field that is absent is \<open>None\<close>.\<close>

record PartialEditorState =
  pages_upd :: "Page list option"
  activePageIndex_upd :: "nat option"

text \<open>
  The actions that neither read nor write \<open>localStorage\<close>. \<open>SET_LOADING\<close> carries
  \<open>isLoading\<close> and the optional \<open>message\<close>.
\<close>

datatype 'p AppAction =
    LOGIN string bool
  | LOAD_PROJECTS "'p list"
  | EXIT_EDITOR
  | SET_EDITOR_STATE EditorState
  | UPDATE_EDITOR_STATE PartialEditorState
  | UNDO
  | REDO
  | SET_LOADING bool "string option"
  | SET_ERROR "string option"

definition initialState :: "'p AppState" where
  "initialState =
     \<lparr>appStatus = status_loading, currentUser = None, projects = [],
      activeProjectIndex = None,
      editor = \<lparr>past = [], present = \<lparr>pages = [], activePageIndex = 0\<rparr>, future = []\<rparr>,
      isLoading = False, loadingMessage = [], errorMessage = None,
      showOnboarding = False\<rparr>"

text \<open>The object spread \<open>{...present, ...action.payload}\<close>.\<close>

definition spread :: "EditorState \<Rightarrow> PartialEditorState \<Rightarrow> EditorState" where
  "spread pres payload =
     \<lparr>pages = (case pages_upd payload of None \<Rightarrow> pages pres | Some ps \<Rightarrow> ps),
      activePageIndex =
        (case activePageIndex_upd payload of None \<Rightarrow> activePageIndex pres | Some i \<Rightarrow> i)\<rparr>"

fun appReducer :: "'p AppState \<Rightarrow> 'p AppAction \<Rightarrow> 'p AppState" where
  "appReducer state (LOGIN email onboarding) =
     state\<lparr>appStatus := status_dashboard, currentUser := Some email,
           showOnboarding := onboarding\<rparr>"
| "appReducer state (LOAD_PROJECTS ps) = state\<lparr>projects := ps\<rparr>"
| "appReducer state EXIT_EDITOR =
     state\<lparr>appStatus := status_dashboard, activeProjectIndex := None\<rparr>"
| "appReducer state (SET_EDITOR_STATE payload) =
     state\<lparr>editor := \<lparr>past = [], present = payload, future = []\<rparr>\<rparr>"
| "appReducer state (UPDATE_EDITOR_STATE payload) =
     (let pres = present (editor state)
      in if JSON_stringify pres = JSON_stringify (spread pres payload) then state
         else state\<lparr>editor :=
                \<lparr>past = past (editor state) @ [pres], present = spread pres payload,
                 future = []\<rparr>\<rparr>)"
| "appReducer state UNDO =
     (let pa = past (editor state); pres = present (editor state);
          fu = future (editor state)
      in if length pa = 0 then state
         else let previous = pa ! (length pa - 1);
                  newPast = take (length pa - 1) pa
              in state\<lparr>editor :=
                   \<lparr>past = newPast, present = previous, future = pres # fu\<rparr>\<rparr>)"
| "appReducer state REDO =
     (let pa = past (editor state); pres = present (editor state);
          fu = future (editor state)
      in if length fu = 0 then state
         else let next = fu ! 0; newFuture = drop 1 fu
              in state\<lparr>editor :=
                   \<lparr>past = pa @ [pres], present = next, future = newFuture\<rparr>\<rparr>)"
| "appReducer state (SET_LOADING b message) =
     state\<lparr>isLoading := b,
           loadingMessage := (if truthy message then str_of message else loadingMessage state)\<rparr>"
| "appReducer state (SET_ERROR payload) = state\<lparr>errorMessage := payload\<rparr>"

text \<open>Dispatching a list of actions in order.\<close>

definition dispatchAll :: "'p AppState \<Rightarrow> 'p AppAction list \<Rightarrow> 'p AppState" where
  "dispatchAll state actions = foldl appReducer state actions"

section \<open>Generation orchestrator (\<open>generateMindMap\<close>)\<close>

subsection \<open>The browser and the AI backend\<close>

text \<open>The response of \<open>ai.models.generateContent\<close>, as far as the code reads it.\<close>

datatype Blob = Blob (data: "string option")
datatype Part = Part (inlineData: "Blob option")
datatype Content = Content (parts: "Part list option")
datatype Candidate = Candidate (content: "Content option")
datatype GenerateContentResponse =
  GenerateContentResponse (candidates: "Candidate list option")

text \<open>The backend call either rejects with an \<open>Error\<close> message or resolves.\<close>

datatype Outcome = Rejects string | Resolves GenerateContentResponse

record Request =
  req_model :: string
  req_role :: "string option"
  req_data :: "string option"
  req_mimeType :: string
  req_text :: string

record Canvas =
  width :: nat
  height :: nat
  toDataURL :: string

text \<open>
  What the surroundings supply to one invocation:
  \<^item> \<open>canvasRef\<close>: \<open>canvasRef.current\<close>, with the data URL \<open>toDataURL\<close> returns
    (the call is taken to return);
  \<^item> \<open>tempCanvas w h\<close>: the data URL of a fresh white canvas of that size, or
    \<open>None\<close> when \<open>getContext('2d')\<close> returns \<open>null\<close>;
  \<^item> \<open>nullContextMessage\<close>: the message of the \<open>TypeError\<close> raised by writing to
    a \<open>null\<close> context;
  \<^item> \<open>random6\<close>: \<open>Math.floor(Math.random() * loadingMessages.length)\<close>;
  \<^item> \<open>generateContent\<close>: the AI backend;
  \<^item> \<open>JSON_parse_message\<close>: the truthy \<open>message\<close> property of
    \<open>JSON.parse\<close> of a text, \<open>None\<close> when parsing or the property read throws or
    the property is falsy.
\<close>

record Env =
  canvasRef :: "Canvas option"
  tempCanvas :: "nat \<Rightarrow> nat \<Rightarrow> string option"
  nullContextMessage :: string
  random6 :: nat
  generateContent :: "Request \<Rightarrow> Outcome"
  JSON_parse_message :: "string \<Rightarrow> string option"

datatype js_error = TypeError

subsection \<open>\<open>parseError\<close>\<close>

definition isLineTerminator :: "char \<Rightarrow> bool" where
  "isLineTerminator c = (c = CHR 0x0A \<or> c = CHR 0x0D)"

text \<open>
  The group \<open>(.*)}\<close> of the regular expression, tried on the text after
  \<open>{"error":\<close>: the greedy \<open>.*\<close> stays on the line and gives back characters up
  to the last closing brace.
\<close>

definition captureGroup :: "string \<Rightarrow> string option" where
  "captureGroup rest =
     (let line = takeWhile (\<lambda>c. \<not> isLineTerminator c) rest
      in if CHR ''}'' \<in> set line
         then Some (rev (tl (dropWhile (\<lambda>c. c \<noteq> CHR ''}'') (rev line))))
         else None)"

fun regex_exec :: "string \<Rightarrow> string option" where
  \<open>regex_exec [] = None\<close>
| \<open>regex_exec (c # cs) =
     (if prefix ''{"error":'' (c # cs)
      then (case captureGroup (drop 9 (c # cs)) of
              Some e \<Rightarrow> Some e
            | None \<Rightarrow> regex_exec cs)
      else regex_exec cs)\<close>

definition parseError :: "Env \<Rightarrow> string \<Rightarrow> string" where
  "parseError env error =
     (case regex_exec error of
        None \<Rightarrow> error
      | Some e \<Rightarrow> (case JSON_parse_message env e of None \<Rightarrow> error | Some msg \<Rightarrow> msg))"

text \<open>\<open>parseError(message) || 'An unexpected error occurred.'\<close>\<close>

definition caughtMessage :: "Env \<Rightarrow> string \<Rightarrow> string" where
  "caughtMessage env message =
     (if parseError env message \<noteq> [] then parseError env message
      else ''An unexpected error occurred.'')"

subsection \<open>Parts shared by the two variants\<close>

definition validationMessage :: string where
  "validationMessage =
     ''Por favor, adicione pelo menos uma palavra-chave a esta p'' @ [CHR 0xE1] @
     ''gina antes de gerar o desenho.''"

definition noImageMessage :: string where
  "noImageMessage =
     ''A IA n'' @ [CHR 0xE3] @ ''o retornou uma imagem. Por favor, tente novamente.''"

definition loadingMessages :: "string list" where
  "loadingMessages =
     [''A IA est'' @ [CHR 0xE1] @ '' desenhando...'',
      ''Sintetizando conceitos...'',
      ''Buscando conex'' @ [CHR 0xF5] @ ''es visuais...'',
      ''Polindo os detalhes...'',
      ''Dando vida '' @ [CHR 0xE0] @ ''s ideias...'',
      ''Organizando o caos criativo...'']"

text \<open>\<open>String.prototype.split\<close> on a one-character separator.\<close>

fun split_char :: "char \<Rightarrow> string \<Rightarrow> string list" where
  "split_char c [] = [[]]"
| "split_char c (x # xs) =
     (if x = c then [] # split_char c xs
      else (case split_char c xs of
              [] \<Rightarrow> [[x]]
            | ys # yss \<Rightarrow> (x # ys) # yss))"

text \<open>\<open>x || 960\<close> on a number that may be \<open>undefined\<close>.\<close>

definition orDefault :: "nat option \<Rightarrow> nat \<Rightarrow> nat" where
  "orDefault v d = (case v of None \<Rightarrow> d | Some n \<Rightarrow> if n = 0 then d else n)"

text \<open>
  The base image. The outer \<open>None\<close> is the temporary canvas without a 2d context;
  the inner option is the \<open>[1]\<close> of the split data URL.
\<close>

definition drawingData :: "Env \<Rightarrow> mode \<Rightarrow> Page \<Rightarrow> string option option" where
  "drawingData env m page =
     (case (if m = evolve \<and> truthy (generatedImage page) then canvasRef env else None) of
        Some canvas \<Rightarrow> Some (at (split_char CHR '','' (toDataURL canvas)) 1)
      | None \<Rightarrow>
          (case tempCanvas env (orDefault (map_option width (canvasRef env)) 960)
                               (orDefault (map_option height (canvasRef env)) 540) of
             None \<Rightarrow> None
           | Some url \<Rightarrow> Some (at (split_char CHR '','' url) 1)))"

text \<open>
  \<open>response.candidates?.[0]?.content?.parts?.find((p) => p.inlineData)?.inlineData?.data\<close>
\<close>

definition imageData :: "GenerateContentResponse \<Rightarrow> string option" where
  "imageData response =
     (case candidates response of
        None \<Rightarrow> None
      | Some cs \<Rightarrow>
          (case at cs 0 of
             None \<Rightarrow> None
           | Some c \<Rightarrow>
               (case content c of
                  None \<Rightarrow> None
                | Some ct \<Rightarrow>
                    (case parts ct of
                       None \<Rightarrow> None
                     | Some ps \<Rightarrow>
                         (case find (\<lambda>p. inlineData p \<noteq> None) ps of
                            None \<Rightarrow> None
                          | Some p \<Rightarrow>
                              (case inlineData p of
                                 None \<Rightarrow> None
                               | Some b \<Rightarrow> data b))))))"

definition imageUrl :: "string \<Rightarrow> string" where
  "imageUrl d = ''data:image/png;base64,'' @ d"

text \<open>\<open>prevPages.map((page, index) => index === i ? f(page) : page)\<close>\<close>

definition mapAt :: "nat \<Rightarrow> ('a \<Rightarrow> 'a) \<Rightarrow> 'a list \<Rightarrow> 'a list" where
  "mapAt i f xs = map (\<lambda>(index, x). if index = i then f x else x) (enumerate 0 xs)"

text \<open>The component state cells that both variants keep with \<open>useState\<close>.\<close>

record UiState =
  selectedModel :: string
  focusedItems :: FocusedItems

definition request :: "string option \<Rightarrow> UiState \<Rightarrow> string option \<Rightarrow> string \<Rightarrow> Request" where
  "request role ui drawing prompt =
     \<lparr>req_model = selectedModel ui, req_role = role, req_data = drawing,
      req_mimeType = ''image/png'', req_text = prompt\<rparr>"

subsection \<open>Variant with the edit history (\<open>EditorScreen\<close>)\<close>

text \<open>
  \<open>updatePage\<close> builds its payload from the pages and the index of the render in which
  the handler was created, and dispatches it; here it returns the action.
\<close>

definition updatePage :: "EditorState \<Rightarrow> (Page \<Rightarrow> Page) \<Rightarrow> 'p AppAction" where
  "updatePage rendered updates =
     UPDATE_EDITOR_STATE
       \<lparr>pages_upd = Some (mapAt (activePageIndex rendered) updates (pages rendered)),
        activePageIndex_upd = None\<rparr>"

text \<open>
  One invocation, with no other event in between. The result is the application state
  and the component state when the returned promise settles, with the requests sent to
  the backend; \<open>Inl TypeError\<close> is the rejection caused by reading \<open>id\<close> of an
  \<open>undefined\<close> active page.
\<close>

definition generateMindMap ::
  "Env \<Rightarrow> mode \<Rightarrow> 'p AppState \<times> UiState
     \<Rightarrow> js_error + ('p AppState \<times> UiState) \<times> Request list" where
  "generateMindMap env m = (\<lambda>(state, ui).
     let pres = present (editor state) in
     (case activePage pres of
        None \<Rightarrow> Inl TypeError
      | Some page \<Rightarrow>
          if page_id page \<noteq> ''master'' \<and> length (keywords page) = 0
          then Inr ((appReducer state (SET_ERROR (Some validationMessage)), ui), [])
          else
            let state1 =
                  appReducer state (SET_LOADING True (at loadingMessages (random6 env)));
                ui1 = ui\<lparr>focusedItems := noFocus\<rparr>;
                finally = (\<lambda>st. appReducer st (SET_LOADING False None))
            in (case drawingData env m page of
                  None \<Rightarrow>
                    Inr ((finally (appReducer state1 (SET_LOADING False None)), ui1), [])
                | Some drawing \<Rightarrow>
                    let prompt = aiPrompt (pages pres) page m (focusedItems ui);
                        req = request None ui drawing prompt
                    in (case generateContent env req of
                          Rejects message \<Rightarrow>
                            Inr ((finally (appReducer state1
                                    (SET_ERROR (Some (caughtMessage env message)))), ui1),
                                 [req])
                        | Resolves response \<Rightarrow>
                            if truthy (imageData response)
                            then Inr ((finally (appReducer state1
                                         (updatePage pres (\<lambda>p. p\<lparr>generatedImage :=
                                            Some (imageUrl (str_of (imageData response)))\<rparr>))),
                                       ui1), [req])
                            else Inr ((finally (appReducer state1
                                         (SET_ERROR (Some noImageMessage))), ui1),
                                      [req])))))"

subsection \<open>Variant with component state (\<open>Home\<close>)\<close>

text \<open>
  The state cells of \<open>Home\<close> that its handlers below touch; \<open>isLoading_h\<close> and
  \<open>errorMessage_h\<close> are the cells \<open>isLoading\<close> and \<open>errorMessage\<close>.
\<close>

record Home = EditorState +
  uiState :: UiState
  isLoading_h :: bool
  showErrorModal :: bool
  errorMessage_h :: string

definition updateActivePage :: "(Page \<Rightarrow> Page) \<Rightarrow> Home \<Rightarrow> Home" where
  "updateActivePage updates s = s\<lparr>pages := mapAt (activePageIndex s) updates (pages s)\<rparr>"

definition generateMindMap_Home ::
  "Env \<Rightarrow> mode \<Rightarrow> Home \<Rightarrow> js_error + Home \<times> Request list" where
  "generateMindMap_Home env m s =
     (case activePage s of
        None \<Rightarrow> Inl TypeError
      | Some page \<Rightarrow>
          if page_id page \<noteq> ''master'' \<and> length (keywords page) = 0
          then Inr (s\<lparr>errorMessage_h := validationMessage, showErrorModal := True\<rparr>, [])
          else
            let s1 = s\<lparr>isLoading_h := True, uiState := (uiState s)\<lparr>focusedItems := noFocus\<rparr>\<rparr>;
                caught = (\<lambda>message st.
                  st\<lparr>errorMessage_h := caughtMessage env message, showErrorModal := True\<rparr>);
                finally = (\<lambda>st. st\<lparr>isLoading_h := False\<rparr>)
            in (case drawingData env m page of
                  None \<Rightarrow> Inr (finally (caught (nullContextMessage env) s1), [])
                | Some drawing \<Rightarrow>
                    let prompt = aiPrompt (pages s) page m (focusedItems (uiState s));
                        req = request (Some ''user'') (uiState s) drawing prompt
                    in (case generateContent env req of
                          Rejects message \<Rightarrow> Inr (finally (caught message s1), [req])
                        | Resolves response \<Rightarrow>
                            if truthy (imageData response)
                            then Inr (finally (s1\<lparr>pages :=
                                        mapAt (activePageIndex s)
                                          (\<lambda>p. p\<lparr>generatedImage :=
                                             Some (imageUrl (str_of (imageData response)))\<rparr>)
                                          (pages s1)\<rparr>), [req])
                            else Inr (finally (s1\<lparr>errorMessage_h := noImageMessage,
                                                   showErrorModal := True\<rparr>), [req]))))"

section \<open>Page handlers of \<open>Home\<close>\<close>

definition handleSaveVersion :: "Home \<Rightarrow> Home" where
  "handleSaveVersion s =
     (case activePage s of
        None \<Rightarrow> s
      | Some page \<Rightarrow>
          (case generatedImage page of
             None \<Rightarrow> s
           | Some img \<Rightarrow>
               if img = [] then s
               else if img \<in> set (versions page) then s
               else let newVersions = versions page @ [img]
                    in updateActivePage (\<lambda>p. p\<lparr>versions := newVersions\<rparr>) s))"

text \<open>\<open>xs.filter((_, i) => i !== d)\<close>\<close>

definition filterIndex :: "nat \<Rightarrow> 'a list \<Rightarrow> 'a list" where
  "filterIndex d xs = map snd (filter (\<lambda>(i, x). i \<noteq> d) (enumerate 0 xs))"

definition confirmDelete :: "string \<Rightarrow> string" where
  \<open>confirmDelete n =
     ''Tem certeza que deseja excluir a p'' @ [CHR 0xE1] @ ''gina "'' @ n @
     ''"? Esta a'' @ [CHR 0xE7, CHR 0xE3] @ ''o n'' @ [CHR 0xE3] @
     ''o pode ser desfeita.''\<close>

text \<open>
  \<open>confirm\<close> is the user's answer to \<open>window.confirm\<close>. Building the question
  reads \<open>name\<close> of \<open>pages[indexToDelete]\<close>, which throws outside the array.
\<close>

definition handleDeletePage :: "(string \<Rightarrow> bool) \<Rightarrow> nat \<Rightarrow> Home \<Rightarrow> js_error + Home" where
  "handleDeletePage confirm indexToDelete s =
     (if indexToDelete = 0 then Inr s
      else (case at (pages s) indexToDelete of
              None \<Rightarrow> Inl TypeError
            | Some page \<Rightarrow>
                if \<not> confirm (confirmDelete (name page)) then Inr s
                else
                  let newPages = filterIndex indexToDelete (pages s);
                      newActiveIndex =
                        (if indexToDelete = activePageIndex s then max 0 (indexToDelete - 1)
                         else if indexToDelete < activePageIndex s then activePageIndex s - 1
                         else activePageIndex s)
                  in Inr (s\<lparr>pages := newPages, activePageIndex := newActiveIndex\<rparr>)))"

section \<open>The clauses of the prompt, as the specification names them\<close>

text \<open>
  These definitions follow the specification's description of the prompt, clause by
  clause; the theorems below compare them with \<open>aiPrompt\<close>, which follows the code.
\<close>

definition masterEntry :: "Page \<Rightarrow> string" where
  \<open>masterEntry page =
     ''\<newline>\<newline>- On page "'' @ name page @ ''", the core concepts are: "'' @
     join '', '' (keywords page) @ ''". The instructions were: "'' @
     join ''. '' (instructions page) @ ''".''\<close>

definition masterEvolve :: "mode \<Rightarrow> string" where
  "masterEvolve m =
     (if m = evolve
      then ''\<newline>\<newline>Evolve the previous master drawing with this complete context. '' @
           ''Do not start from scratch.''
      else [])"

definition contextEntry :: "Page list \<Rightarrow> string \<Rightarrow> string" where
  \<open>contextEntry ps pageId =
     (case find (\<lambda>p. page_id p = pageId) ps of
        None \<Rightarrow> []
      | Some contextPage \<Rightarrow>
          ''\<newline>- From page "'' @ name contextPage @ ''": Core concepts are "'' @
          join '', '' (keywords contextPage) @ ''". Key instructions were: "'' @
          join ''. '' (instructions contextPage) @ ''".'')\<close>

definition coverage_clause :: "Page \<Rightarrow> string" where
  "coverage_clause page = goldenRule (name page)"

definition mode_clause :: "Page \<Rightarrow> mode \<Rightarrow> string" where
  "mode_clause page m =
     (case m of evolve \<Rightarrow> ruleEvolve (name page) | rethink \<Rightarrow> ruleFresh (name page))"

definition focusedStrings :: "string list \<Rightarrow> nat list \<Rightarrow> string" where
  \<open>focusedStrings xs idx = join ''", "'' (map (\<lambda>i. str_of (at xs i)) idx)\<close>

definition focus_clause :: "Page \<Rightarrow> FocusedItems \<Rightarrow> string" where
  \<open>focus_clause page f =
     (if focus_keywords f = [] \<and> focus_instructions f = [] then []
      else focusHeader @
           (if focus_keywords f = [] then []
            else ''\<newline>- Focused Keywords: "'' @
                 focusedStrings (keywords page) (focus_keywords f) @ ''"'') @
           (if focus_instructions f = [] then []
            else ''\<newline>- Focused Instructions: "'' @
                 focusedStrings (instructions page) (focus_instructions f) @ ''"''))\<close>

definition context_clause :: "Page list \<Rightarrow> Page \<Rightarrow> string" where
  "context_clause ps page =
     (if contextPageIds page = [] then []
      else contextHeader @ concat (map (contextEntry ps) (contextPageIds page)))"

definition instruction_summary :: "Page \<Rightarrow> string" where
  \<open>instruction_summary page =
     (if join ''. '' (instructions page) = [] then []
      else ''\<newline>\<newline>Overall instructions to follow: "'' @
           join ''. '' (instructions page) @ ''".'')\<close>

definition keyword_summary :: "Page \<Rightarrow> string" where
  \<open>keyword_summary page =
     ''\<newline>\<newline>All concepts to include: "'' @ join '', '' (keywords page) @ ''".''\<close>

section \<open>Example documents\<close>

text \<open>The project of the specification's example scenario, with two more pages.\<close>

definition masterPage :: Page where
  "masterPage = createNewPage ''master'' ''Master''"

definition ideasPage :: Page where
  "ideasPage = (createNewPage ''page-1'' ''Ideas'')\<lparr>keywords := [''Brain'', ''Light'']\<rparr>"

definition notesPage :: Page where
  "notesPage =
     (createNewPage ''page-2'' ''Notes'')
       \<lparr>keywords := [''Map''], instructions := [''use blue'', ''big arrows''],
        contextPageIds := [''page-1'']\<rparr>"

definition emptyPage :: Page where
  "emptyPage = (createNewPage ''page-3'' ''Empty'')\<lparr>instructions := [''draw'']\<rparr>"

section \<open>Sequences of history operations\<close>

text \<open>A Commit is the action \<open>UPDATE_EDITOR_STATE\<close>; \<open>commits\<close> applies a sequence.\<close>

fun commits :: "'p AppState \<Rightarrow> PartialEditorState list \<Rightarrow> 'p AppState" where
  "commits state [] = state"
| "commits state (p # ps) = commits (appReducer state (UPDATE_EDITOR_STATE p)) ps"

text \<open>
  A Commit is successful when the reducer does not take it for a repetition of the
  present snapshot; \<open>successful\<close> says so of every Commit of a sequence.
\<close>

definition changes :: "'p AppState \<Rightarrow> PartialEditorState \<Rightarrow> bool" where
  "changes state p =
     (JSON_stringify (present (editor state)) \<noteq>
      JSON_stringify (spread (present (editor state)) p))"

fun successful :: "'p AppState \<Rightarrow> PartialEditorState list \<Rightarrow> bool" where
  "successful state [] = True"
| "successful state (p # ps) =
     (changes state p \<and> successful (appReducer state (UPDATE_EDITOR_STATE p)) ps)"

definition undos :: "nat \<Rightarrow> 'p AppState \<Rightarrow> 'p AppState" where
  "undos n state = ((\<lambda>s. appReducer s UNDO) ^^ n) state"

definition redos :: "nat \<Rightarrow> 'p AppState \<Rightarrow> 'p AppState" where
  "redos n state = ((\<lambda>s. appReducer s REDO) ^^ n) state"

text \<open>An editor opened on the example project, and two partial updates.\<close>

definition exampleDocument :: EditorState where
  "exampleDocument = \<lparr>pages = [masterPage, ideasPage, emptyPage], activePageIndex = 0\<rparr>"

definition openedEditor :: "unit AppState" where
  "openedEditor = appReducer initialState (SET_EDITOR_STATE exampleDocument)"

definition selectPage :: "nat \<Rightarrow> PartialEditorState" where
  "selectPage i = \<lparr>pages_upd = None, activePageIndex_upd = Some i\<rparr>"

definition replacePages :: "Page list \<Rightarrow> PartialEditorState" where
  "replacePages ps = \<lparr>pages_upd = Some ps, activePageIndex_upd = None\<rparr>"

text \<open>
  Deep equality of two snapshots: the same pages in the same order, each with the same
  value in every property, and the same active index. The order in which a page object
  lists its properties plays no part in it.
\<close>

definition deepEqualPage :: "Page \<Rightarrow> Page \<Rightarrow> bool" where
  "deepEqualPage p q =
     (page_id p = page_id q \<and> name p = name q \<and> keywords p = keywords q \<and>
      instructions p = instructions q \<and> generatedImage p = generatedImage q \<and>
      versions p = versions q \<and> contextPageIds p = contextPageIds q \<and>
      backgroundImageRef p = backgroundImageRef q)"

definition deepEqual :: "EditorState \<Rightarrow> EditorState \<Rightarrow> bool" where
  "deepEqual a b =
     (list_all2 deepEqualPage (pages a) (pages b) \<and> activePageIndex a = activePageIndex b)"

text \<open>The page \<open>Ideas\<close> as an object that lists \<open>name\<close> before \<open>id\<close>.\<close>

definition reorderedIdeasPage :: Page where
  "reorderedIdeasPage =
     ideasPage\<lparr>keyOrder :=
       [Key_name, Key_id, Key_keywords, Key_instructions, Key_generatedImage, Key_versions,
        Key_contextPageIds, Key_backgroundImageRef]\<rparr>"

text \<open>The editor after selecting the page \<open>Ideas\<close> and undoing the selection.\<close>

definition undoneEditor :: "unit AppState" where
  "undoneEditor =
     appReducer (appReducer openedEditor (UPDATE_EDITOR_STATE (selectPage 1))) UNDO"

section \<open>Responses without an image, and example surroundings\<close>

text \<open>
  A response carries an image payload when some part of some candidate has inline data
  with a non-empty \<open>data\<close> text.
\<close>

definition partHasImage :: "Part \<Rightarrow> bool" where
  "partHasImage p = (case inlineData p of None \<Rightarrow> False | Some b \<Rightarrow> truthy (data b))"

definition candidateHasImage :: "Candidate \<Rightarrow> bool" where
  "candidateHasImage c =
     (case content c of
        None \<Rightarrow> False
      | Some ct \<Rightarrow> (case parts ct of None \<Rightarrow> False | Some ps \<Rightarrow> list_ex partHasImage ps))"

definition carriesImage :: "GenerateContentResponse \<Rightarrow> bool" where
  "carriesImage response =
     (case candidates response of None \<Rightarrow> False | Some cs \<Rightarrow> list_ex candidateHasImage cs)"

text \<open>A page passes the check at the head of \<open>generateMindMap\<close>.\<close>

definition passesValidation :: "Page \<Rightarrow> bool" where
  "passesValidation page = (page_id page = ''master'' \<or> keywords page \<noteq> [])"

text \<open>A response with one candidate whose only part is text.\<close>

definition textOnlyResponse :: GenerateContentResponse where
  "textOnlyResponse =
     GenerateContentResponse (Some [Candidate (Some (Content (Some [Part None])))])"

definition imageResponse :: GenerateContentResponse where
  "imageResponse =
     GenerateContentResponse
       (Some [Candidate (Some (Content (Some [Part None, Part (Some (Blob (Some ''iVBOR'')))])))])"

definition browser :: "(Request \<Rightarrow> Outcome) \<Rightarrow> Env" where
  "browser backend =
     \<lparr>canvasRef = Some \<lparr>width = 960, height = 540, toDataURL = ''data:image/png;base64,AAAA''\<rparr>,
      tempCanvas = (\<lambda>w h. Some ''data:image/png;base64,BBBB''),
      nullContextMessage = ''tempCtx is null'',
      random6 = 2,
      generateContent = backend,
      JSON_parse_message = (\<lambda>t. None)\<rparr>"

definition focusOn :: "nat list \<Rightarrow> nat list \<Rightarrow> UiState" where
  "focusOn ks is =
     \<lparr>selectedModel = ''gemini-2.5-flash-image'',
      focusedItems = \<lparr>focus_keywords = ks, focus_instructions = is\<rparr>\<rparr>"

text \<open>The editor of \<open>EditorScreen\<close> and the state of \<open>Home\<close> with page \<open>i\<close> active.\<close>

definition editorOn :: "nat \<Rightarrow> unit AppState" where
  "editorOn i =
     appReducer initialState (SET_EDITOR_STATE (exampleDocument\<lparr>activePageIndex := i\<rparr>))"

definition homeOn :: "nat \<Rightarrow> UiState \<Rightarrow> Home" where
  "homeOn i u =
     \<lparr>pages = [masterPage, ideasPage, emptyPage], activePageIndex = i, uiState = u,
      isLoading_h = False, showErrorModal = False, errorMessage_h = []\<rparr>"

text \<open>The page \<open>Ideas\<close> after a drawing was generated, active in \<open>Home\<close>.\<close>

definition drawnPage :: Page where
  "drawnPage = ideasPage\<lparr>generatedImage := Some ''data:image/png;base64,iVBOR''\<rparr>"

definition homeDrawn :: Home where
  "homeDrawn =
     \<lparr>pages = [masterPage, drawnPage], activePageIndex = 1, uiState = focusOn [] [],
      isLoading_h = False, showErrorModal = False, errorMessage_h = []\<rparr>"

section \<open>Properties of the prompt composer\<close>

lemma sublist_join: "x \<in> set xs \<Longrightarrow> sublist x (join sep xs)"
proof (induction sep xs rule: join.induct)
  case (1 sep)
  then show ?case by simp
next
  case (2 sep y)
  then show ?case by simp
next
  case (3 sep y z zs)
  show ?case
  proof (cases "x = y")
    case True
    then show ?thesis by simp
  next
    case False
    with 3 have "sublist x (join sep (z # zs))" by simp
    then obtain ps ss where "join sep (z # zs) = ps @ x @ ss"
      by (auto simp: sublist_def)
    then have "join sep (y # z # zs) = (y @ sep @ ps) @ x @ ss" by simp
    then show ?thesis unfolding sublist_def by blast
  qed
qed

lemma join_eq_Nil: "sep \<noteq> [] \<Longrightarrow> join sep xs = [] \<longleftrightarrow> xs = [] \<or> xs = [[]]"
  by (induction sep xs rule: join.induct) auto

lemma foldl_masterStep:
  "foldl masterStep acc ps =
     acc @ concat (map masterEntry (filter (\<lambda>p. keywords p \<noteq> []) ps))"
  by (induction ps arbitrary: acc) (simp_all add: masterStep_def masterEntry_def)

lemma foldl_contextStep:
  "foldl (contextStep ps) acc ids = acc @ concat (map (contextEntry ps) ids)"
  by (induction ids arbitrary: acc)
     (simp_all add: contextStep_def contextEntry_def split: option.splits)

lemma aiPrompt_master_entries:
  "aiPrompt_master ps m =
     masterIntro @
     concat (map masterEntry
       (filter (\<lambda>p. page_id p \<noteq> ''master'' \<and> keywords p \<noteq> []) ps)) @
     masterEvolve m"
  by (simp add: aiPrompt_master_def Let_def foldl_masterStep masterEvolve_def conj_commute)

lemma if_append_same: "(if c then a @ x else a) = a @ (if c then x else [])"
  by simp

lemma if_append_both: "(if c then a @ x else a @ y) = a @ (if c then x else y)"
  by simp

lemma aiPrompt_regular_clauses:
  "aiPrompt_regular ps page m f =
     coverage_clause page @ mode_clause page m @ focus_clause page f @
     context_clause ps page @ instruction_summary page @ keyword_summary page"
proof -
  have "aiPrompt_regular ps page m f =
     goldenRule (name page) @
     (if m = evolve then ruleEvolve (name page) else ruleFresh (name page)) @
     focus_clause page f @ context_clause ps page @ instruction_summary page @
     keyword_summary page"
    unfolding aiPrompt_regular_def focus_clause_def context_clause_def
      instruction_summary_def keyword_summary_def foldl_contextStep focusedStrings_def
    by (simp add: if_append_same if_append_both comp_def del: append.simps)
  then show ?thesis
    by (cases m) (simp_all add: coverage_clause_def mode_clause_def)
qed

lemma filter_nonempty_twice:
  "filter (\<lambda>p. page_id p \<noteq> ''master'' \<and> keywords p \<noteq> [])
     (filter (\<lambda>p. keywords p \<noteq> []) ps) =
   filter (\<lambda>p. page_id p \<noteq> ''master'' \<and> keywords p \<noteq> []) ps"
  by (induction ps) auto

lemma aiPrompt_master_filter:
  "aiPrompt_master (filter (\<lambda>p. keywords p \<noteq> []) ps) m = aiPrompt_master ps m"
  by (simp only: aiPrompt_master_entries filter_nonempty_twice)

lemma sublist_instruction_summary:
  assumes "i \<in> set (instructions page)"
  shows "sublist i (instruction_summary page)"
proof (cases "join ''. '' (instructions page) = []")
  case True
  with assms have "i = []" by (auto simp: join_eq_Nil)
  then show ?thesis by simp
next
  case False
  from assms have "sublist i (join ''. '' (instructions page))" by (rule sublist_join)
  then obtain ps ss where "join ''. '' (instructions page) = ps @ i @ ss"
    by (auto simp: sublist_def)
  with False show ?thesis
    unfolding instruction_summary_def sublist_def
    by (metis append.assoc)
qed

lemma sublist_keyword_summary:
  assumes "k \<in> set (keywords page)"
  shows "sublist k (keyword_summary page)"
proof -
  from assms have "sublist k (join '', '' (keywords page))" by (rule sublist_join)
  then obtain ps ss where "join '', '' (keywords page) = ps @ k @ ss"
    by (auto simp: sublist_def)
  then show ?thesis
    unfolding keyword_summary_def sublist_def
    by (metis append.assoc)
qed

lemma sublist_trans_app: "sublist x b \<Longrightarrow> sublist x (a @ b @ c)"
  by (metis sublist_appendI sublist_order.order_trans)

text \<open>
  Claim C4. When the prompt is composed for the master page, every page whose keyword
  list is empty is left out: the prompt is the one composed from the pages that have
  keywords, and it consists of the introduction, one entry for each non-master page
  with keywords, in document order, and the evolve sentence. When the prompt is composed
  for another page, it contains every keyword and every instruction of that page as a
  contiguous substring.
\<close>

theorem prompt_contents:
  "(page_id page = ''master'' \<longrightarrow>
      aiPrompt ps page m f = aiPrompt (filter (\<lambda>p. keywords p \<noteq> []) ps) page m f \<and>
      aiPrompt ps page m f =
        masterIntro @
        concat (map masterEntry
          (filter (\<lambda>p. page_id p \<noteq> ''master'' \<and> keywords p \<noteq> []) ps)) @
        masterEvolve m) \<and>
   (page_id page \<noteq> ''master'' \<longrightarrow>
      (\<forall>k \<in> set (keywords page). sublist k (aiPrompt ps page m f)) \<and>
      (\<forall>i \<in> set (instructions page). sublist i (aiPrompt ps page m f)))"
proof (intro conjI impI ballI)
  assume "page_id page = ''master''"
  then show "aiPrompt ps page m f = aiPrompt (filter (\<lambda>p. keywords p \<noteq> []) ps) page m f"
    by (simp add: aiPrompt_def aiPrompt_master_filter)
next
  assume "page_id page = ''master''"
  then show "aiPrompt ps page m f =
        masterIntro @
        concat (map masterEntry
          (filter (\<lambda>p. page_id p \<noteq> ''master'' \<and> keywords p \<noteq> []) ps)) @
        masterEvolve m"
    by (simp add: aiPrompt_def aiPrompt_master_entries)
next
  fix k
  assume nm: "page_id page \<noteq> ''master''" and k: "k \<in> set (keywords page)"
  have "sublist k (keyword_summary page)" using k by (rule sublist_keyword_summary)
  then have "sublist k ((coverage_clause page @ mode_clause page m @ focus_clause page f @
     context_clause ps page @ instruction_summary page) @ keyword_summary page @ [])"
    by (rule sublist_trans_app)
  with nm show "sublist k (aiPrompt ps page m f)"
    by (simp add: aiPrompt_def aiPrompt_regular_clauses)
next
  fix i
  assume nm: "page_id page \<noteq> ''master''" and i: "i \<in> set (instructions page)"
  have "sublist i (instruction_summary page)" using i by (rule sublist_instruction_summary)
  then have "sublist i ((coverage_clause page @ mode_clause page m @ focus_clause page f @
     context_clause ps page) @ instruction_summary page @ keyword_summary page)"
    by (rule sublist_trans_app)
  with nm show "sublist i (aiPrompt ps page m f)"
    by (simp add: aiPrompt_def aiPrompt_regular_clauses)
qed

theorem prompt_contents_witness:
  "aiPrompt [masterPage, emptyPage, notesPage] masterPage rethink noFocus =
     aiPrompt [notesPage] masterPage rethink noFocus \<and>
   aiPrompt [masterPage, ideasPage, emptyPage] masterPage evolve noFocus =
     masterIntro @ masterEntry ideasPage @ masterEvolve evolve \<and>
   sublist ''Map'' (aiPrompt [masterPage, ideasPage, notesPage] notesPage rethink noFocus) \<and>
   sublist ''use blue'' (aiPrompt [masterPage, ideasPage, notesPage] notesPage rethink noFocus) \<and>
   sublist ''big arrows'' (aiPrompt [masterPage, ideasPage, notesPage] notesPage rethink noFocus)"
proof -
  have m: "page_id masterPage = ''master''"
    by (simp add: masterPage_def createNewPage_def)
  have n: "page_id notesPage \<noteq> ''master''"
    by (simp add: notesPage_def createNewPage_def)
  have f1: "filter (\<lambda>p. keywords p \<noteq> []) [masterPage, emptyPage, notesPage] = [notesPage]"
    by (simp add: masterPage_def emptyPage_def notesPage_def createNewPage_def)
  have f2: "filter (\<lambda>p. page_id p \<noteq> ''master'' \<and> keywords p \<noteq> [])
              [masterPage, ideasPage, emptyPage] = [ideasPage]"
    by (simp add: masterPage_def emptyPage_def ideasPage_def createNewPage_def)
  have k: "''Map'' \<in> set (keywords notesPage)"
    and i1: "''use blue'' \<in> set (instructions notesPage)"
    and i2: "''big arrows'' \<in> set (instructions notesPage)"
    by (simp_all add: notesPage_def createNewPage_def)
  from prompt_contents [of masterPage "[masterPage, emptyPage, notesPage]" rethink noFocus] m
  have "aiPrompt [masterPage, emptyPage, notesPage] masterPage rethink noFocus =
        aiPrompt (filter (\<lambda>p. keywords p \<noteq> []) [masterPage, emptyPage, notesPage])
          masterPage rethink noFocus"
    by blast
  then have c1: "aiPrompt [masterPage, emptyPage, notesPage] masterPage rethink noFocus =
        aiPrompt [notesPage] masterPage rethink noFocus"
    by (simp only: f1)
  from prompt_contents [of masterPage "[masterPage, ideasPage, emptyPage]" evolve noFocus] m
  have "aiPrompt [masterPage, ideasPage, emptyPage] masterPage evolve noFocus =
        masterIntro @
        concat (map masterEntry
          (filter (\<lambda>p. page_id p \<noteq> ''master'' \<and> keywords p \<noteq> [])
             [masterPage, ideasPage, emptyPage])) @
        masterEvolve evolve"
    by blast
  then have c2: "aiPrompt [masterPage, ideasPage, emptyPage] masterPage evolve noFocus =
        masterIntro @ masterEntry ideasPage @ masterEvolve evolve"
    unfolding f2 by simp
  from prompt_contents [of notesPage "[masterPage, ideasPage, notesPage]" rethink noFocus]
    n k i1 i2
  have c3: "sublist ''Map''
              (aiPrompt [masterPage, ideasPage, notesPage] notesPage rethink noFocus)"
    and c4: "sublist ''use blue''
              (aiPrompt [masterPage, ideasPage, notesPage] notesPage rethink noFocus)"
    and c5: "sublist ''big arrows''
              (aiPrompt [masterPage, ideasPage, notesPage] notesPage rethink noFocus)"
    by blast+
  from c1 c2 c3 c4 c5 show ?thesis by blast
qed


lemma goldenRule_nonempty: "goldenRule n \<noteq> []"
  by (simp add: goldenRule_def)

lemma mode_clause_nonempty: "mode_clause page m \<noteq> []"
  by (cases m) (simp_all add: mode_clause_def ruleEvolve_def ruleFresh_def)

lemma focus_clause_empty:
  "focus_clause page f = [] \<longleftrightarrow> focus_keywords f = [] \<and> focus_instructions f = []"
  by (simp add: focus_clause_def focusHeader_def)

lemma context_clause_empty: "context_clause ps page = [] \<longleftrightarrow> contextPageIds page = []"
  by (simp add: context_clause_def contextHeader_def)

lemma instruction_summary_empty:
  "instruction_summary page = [] \<longleftrightarrow> instructions page = [] \<or> instructions page = [[]]"
  by (simp add: instruction_summary_def join_eq_Nil)

text \<open>
  Claim C5, as amended. For every page other than the master page, the prompt is the
  concatenation, in this order, of the mandatory-coverage clause, the mode clause, the
  focus-priority clause, the cross-page-context clause, the instruction summary and the
  keyword summary. The coverage clause, the mode clause and the keyword summary are
  always present; the focus clause is absent exactly when both focus lists are empty,
  the context clause exactly when \<open>contextPageIds\<close> is empty, and the instruction
  summary exactly when the joined instructions are the empty text, that is when the
  instruction list is empty or holds one empty string.
\<close>

theorem prompt_clause_order:
  assumes "page_id page \<noteq> ''master''"
  shows "aiPrompt ps page m f =
           coverage_clause page @ mode_clause page m @ focus_clause page f @
           context_clause ps page @ instruction_summary page @ keyword_summary page \<and>
         coverage_clause page \<noteq> [] \<and> mode_clause page m \<noteq> [] \<and>
         (focus_clause page f = [] \<longleftrightarrow> focus_keywords f = [] \<and> focus_instructions f = []) \<and>
         (context_clause ps page = [] \<longleftrightarrow> contextPageIds page = []) \<and>
         (instruction_summary page = [] \<longleftrightarrow>
            instructions page = [] \<or> instructions page = [[]]) \<and>
         keyword_summary page \<noteq> []"
proof -
  from assms have "aiPrompt ps page m f = aiPrompt_regular ps page m f"
    by (simp add: aiPrompt_def)
  moreover have "keyword_summary page \<noteq> []"
    by (simp add: keyword_summary_def)
  ultimately show ?thesis
    by (simp only: aiPrompt_regular_clauses coverage_clause_def goldenRule_nonempty
          mode_clause_nonempty focus_clause_empty context_clause_empty
          instruction_summary_empty simp_thms)
qed

theorem prompt_clause_order_witness:
  "aiPrompt [masterPage, ideasPage, notesPage] notesPage evolve
     \<lparr>focus_keywords = [0], focus_instructions = []\<rparr> =
   coverage_clause notesPage @ mode_clause notesPage evolve @
   focus_clause notesPage \<lparr>focus_keywords = [0], focus_instructions = []\<rparr> @
   context_clause [masterPage, ideasPage, notesPage] notesPage @
   instruction_summary notesPage @ keyword_summary notesPage \<and>
   focus_clause notesPage \<lparr>focus_keywords = [0], focus_instructions = []\<rparr> \<noteq> [] \<and>
   context_clause [masterPage, ideasPage, notesPage] notesPage \<noteq> [] \<and>
   instruction_summary notesPage \<noteq> []"
proof -
  have n: "page_id notesPage \<noteq> ''master''"
    by (simp add: notesPage_def createNewPage_def)
  have "contextPageIds notesPage \<noteq> []" and "instructions notesPage \<noteq> []"
    and "instructions notesPage \<noteq> [[]]"
    by (simp_all add: notesPage_def createNewPage_def)
  with prompt_clause_order [OF n, of "[masterPage, ideasPage, notesPage]" evolve
      "\<lparr>focus_keywords = [0], focus_instructions = []\<rparr>"]
  show ?thesis by simp
qed

text \<open>
  The page \<open>Ideas\<close> of the specification's example has keywords and no instruction:
  its prompt is the coverage clause, the mode clause and the keyword summary, and the
  text of the instruction summary occurs nowhere in it.
\<close>

theorem prompt_clause_order_counterexample:
  "aiPrompt [masterPage, ideasPage] ideasPage rethink noFocus =
     coverage_clause ideasPage @ mode_clause ideasPage rethink @ keyword_summary ideasPage \<and>
   \<not> sublist ''Overall instructions to follow''
       (aiPrompt [masterPage, ideasPage] ideasPage rethink noFocus)"
  by code_simp


section \<open>Properties of the edit history\<close>

lemma take_nth_last:
  "xs \<noteq> [] \<Longrightarrow> take (length xs - Suc 0) xs @ [xs ! (length xs - Suc 0)] = xs"
  by (metis One_nat_def append_butlast_last_id butlast_conv_take last_conv_nth)

lemma redo_undo:
  assumes "past (editor s) \<noteq> []"
  shows "appReducer (appReducer s UNDO) REDO = s"
  using assms by (simp add: Let_def take_nth_last)

lemma undo_length:
  "length (past (editor (appReducer s UNDO))) = length (past (editor s)) - 1"
  by (simp add: Let_def)

lemma undos_length:
  "length (past (editor (undos n s))) = length (past (editor s)) - n"
  by (induction n) (simp_all add: undos_def undo_length del: appReducer.simps)

lemma redos_undos:
  "n \<le> length (past (editor s)) \<Longrightarrow> redos n (undos n s) = s"
proof (induction n)
  case 0
  then show ?case by (simp add: undos_def redos_def)
next
  case (Suc n)
  have "past (editor (undos n s)) \<noteq> []"
    using Suc.prems undos_length [of n s] by (cases "past (editor (undos n s))") auto
  then have "appReducer (appReducer (undos n s) UNDO) REDO = undos n s"
    by (rule redo_undo)
  moreover have "undos (Suc n) s = appReducer (undos n s) UNDO"
    by (simp add: undos_def del: appReducer.simps)
  moreover have "redos (Suc n) t = redos n (appReducer t REDO)" for t :: "'a AppState"
    using funpow_swap1 [of "\<lambda>s. appReducer s REDO" n t]
    by (simp add: redos_def del: appReducer.simps)
  ultimately have "redos (Suc n) (undos (Suc n) s) = redos n (undos n s)"
    by simp
  with Suc show ?case by simp
qed

lemma commit_past_length:
  "changes s p \<Longrightarrow>
   length (past (editor (appReducer s (UPDATE_EDITOR_STATE p)))) = Suc (length (past (editor s)))"
  by (simp add: changes_def Let_def)

lemma commits_past_length:
  "successful s ps \<Longrightarrow>
   length (past (editor (commits s ps))) = length (past (editor s)) + length ps"
  by (induction ps arbitrary: s) (simp_all add: commit_past_length del: appReducer.simps)

text \<open>
  Claim C1. After any sequence of \<open>n\<close> successful Commits, \<open>n\<close> Undos followed by
  \<open>n\<close> Redos, with nothing in between, give back the present snapshot held before
  the Undos; indeed they give back the whole state.
\<close>

theorem undo_redo_roundtrip:
  assumes "successful state ps"
  shows "present (editor (redos (length ps) (undos (length ps) (commits state ps)))) =
           present (editor (commits state ps)) \<and>
         redos (length ps) (undos (length ps) (commits state ps)) = commits state ps"
proof -
  from assms have "length ps \<le> length (past (editor (commits state ps)))"
    by (simp add: commits_past_length)
  then have "redos (length ps) (undos (length ps) (commits state ps)) = commits state ps"
    by (rule redos_undos)
  then show ?thesis by simp
qed

theorem undo_redo_roundtrip_witness:
  "successful openedEditor [selectPage 1, replacePages [masterPage], selectPage 0] \<and>
   present (editor (redos 3 (undos 3
     (commits openedEditor [selectPage 1, replacePages [masterPage], selectPage 0])))) =
   present (editor
     (commits openedEditor [selectPage 1, replacePages [masterPage], selectPage 0]))"
proof -
  have h: "successful openedEditor [selectPage 1, replacePages [masterPage], selectPage 0]"
    by code_simp
  have "length [selectPage 1, replacePages [masterPage], selectPage 0] = 3"
    by simp
  with undo_redo_roundtrip [OF h] h show ?thesis
    by (simp only:)
qed

lemma deepEqualPage_same_order:
  "deepEqualPage p q \<Longrightarrow> keyOrder p = keyOrder q \<Longrightarrow> p = q"
  by (cases p, cases q) (simp add: deepEqualPage_def)

lemma deepEqual_same_order:
  assumes "list_all2 deepEqualPage ps qs" and "map keyOrder ps = map keyOrder qs"
  shows "ps = qs"
  using assms
  by (induction ps qs rule: list_all2_induct) (simp_all add: deepEqualPage_same_order)

text \<open>
  Claim C2, as amended. A Commit whose partial update, merged into the present snapshot,
  is deep-equal to the present snapshot and lists the properties of every page in the
  same order as the present snapshot does, returns the state it was given: the length of
  \<open>past\<close> and the contents of \<open>future\<close> are unchanged.
\<close>

theorem commit_noop:
  assumes "deepEqual (spread (present (editor state)) payload) (present (editor state))"
    and "map keyOrder (pages (spread (present (editor state)) payload)) =
         map keyOrder (pages (present (editor state)))"
  shows "appReducer state (UPDATE_EDITOR_STATE payload) = state \<and>
         length (past (editor (appReducer state (UPDATE_EDITOR_STATE payload)))) =
           length (past (editor state)) \<and>
         future (editor (appReducer state (UPDATE_EDITOR_STATE payload))) =
           future (editor state)"
proof -
  from assms have "pages (spread (present (editor state)) payload) =
                   pages (present (editor state))"
    by (simp add: deepEqual_def deepEqual_same_order)
  moreover from assms(1) have "activePageIndex (spread (present (editor state)) payload) =
                               activePageIndex (present (editor state))"
    by (simp add: deepEqual_def)
  ultimately have "spread (present (editor state)) payload = present (editor state)"
    by simp
  then show ?thesis by simp
qed

theorem commit_noop_witness:
  "deepEqual (spread (present (editor undoneEditor))
       (replacePages [masterPage, ideasPage, emptyPage]))
     (present (editor undoneEditor)) \<and>
   future (editor undoneEditor) \<noteq> [] \<and>
   appReducer undoneEditor
       (UPDATE_EDITOR_STATE (replacePages [masterPage, ideasPage, emptyPage])) =
     undoneEditor"
proof -
  have h: "deepEqual (spread (present (editor undoneEditor))
       (replacePages [masterPage, ideasPage, emptyPage]))
     (present (editor undoneEditor))"
    by code_simp
  have k: "map keyOrder (pages (spread (present (editor undoneEditor))
       (replacePages [masterPage, ideasPage, emptyPage]))) =
     map keyOrder (pages (present (editor undoneEditor)))"
    by code_simp
  have f: "future (editor undoneEditor) \<noteq> []"
    by code_simp
  from commit_noop [OF h k] h f show ?thesis by blast
qed

text \<open>
  The editor shows the example project. A Commit replaces the pages by the same pages,
  with the page \<open>Ideas\<close> given as an object that lists \<open>name\<close> before \<open>id\<close>.
  The merged snapshot is deep-equal to the present one, but its text differs, and the
  reducer pushes the present snapshot onto \<open>past\<close>.
\<close>

theorem commit_noop_counterexample:
  "deepEqual (spread (present (editor openedEditor))
       (replacePages [masterPage, reorderedIdeasPage, emptyPage]))
     (present (editor openedEditor)) \<and>
   appReducer openedEditor
       (UPDATE_EDITOR_STATE (replacePages [masterPage, reorderedIdeasPage, emptyPage])) \<noteq>
     openedEditor \<and>
   length (past (editor (appReducer openedEditor
       (UPDATE_EDITOR_STATE (replacePages [masterPage, reorderedIdeasPage, emptyPage]))))) =
     Suc (length (past (editor openedEditor)))"
  by code_simp

text \<open>
  Claim C8, as amended. After a Commit that the reducer does not take for a repetition
  (the merged snapshot and the present snapshot differ under \<open>JSON.stringify\<close>), the
  present snapshot has been pushed onto \<open>past\<close>, the merged snapshot is the present
  one and \<open>future\<close> is empty. Any other Commit returns the state it was given.
\<close>

theorem commit_clears_future:
  "(changes state payload \<longrightarrow>
      editor (appReducer state (UPDATE_EDITOR_STATE payload)) =
        \<lparr>past = past (editor state) @ [present (editor state)],
         present = spread (present (editor state)) payload, future = []\<rparr> \<and>
      future (editor (appReducer state (UPDATE_EDITOR_STATE payload))) = []) \<and>
   (\<not> changes state payload \<longrightarrow>
      appReducer state (UPDATE_EDITOR_STATE payload) = state)"
  by (simp add: changes_def Let_def)

theorem commit_clears_future_witness:
  "changes undoneEditor (selectPage 2) \<and>
   future (editor undoneEditor) \<noteq> [] \<and>
   future (editor (appReducer undoneEditor (UPDATE_EDITOR_STATE (selectPage 2)))) = []"
proof -
  have h: "changes undoneEditor (selectPage 2)"
    by code_simp
  have f: "future (editor undoneEditor) \<noteq> []"
    by code_simp
  from commit_clears_future [of undoneEditor "selectPage 2"] h f
  show ?thesis by blast
qed

text \<open>
  After an Undo the future list holds one snapshot. A Commit that selects the page that
  is already active is taken for a repetition, and the future list stays as it was.
\<close>

theorem commit_clears_future_counterexample:
  "future (editor (appReducer undoneEditor (UPDATE_EDITOR_STATE (selectPage 0)))) \<noteq> []"
  by code_simp


section \<open>Properties of the generation orchestrator\<close>

lemma find_no_image:
  "\<not> list_ex partHasImage ps \<Longrightarrow>
   (case find (\<lambda>p. inlineData p \<noteq> None) ps of
      None \<Rightarrow> None
    | Some p \<Rightarrow> (case inlineData p of None \<Rightarrow> None | Some b \<Rightarrow> data b)) = Some d \<Longrightarrow> d = []"
  by (induction ps) (auto simp: partHasImage_def truthy_def split: option.splits if_splits)

lemma no_image_falsy:
  assumes "\<not> carriesImage response"
  shows "\<not> truthy (imageData response)"
proof (cases "imageData response")
  case None
  then show ?thesis by (simp add: truthy_def)
next
  case (Some d)
  then obtain cs c ct ps where cs: "candidates response = Some cs" and c: "at cs 0 = Some c"
    and ct: "content c = Some ct" and ps: "parts ct = Some ps"
    and f: "(case find (\<lambda>p. inlineData p \<noteq> None) ps of
      None \<Rightarrow> None
    | Some p \<Rightarrow> (case inlineData p of None \<Rightarrow> None | Some b \<Rightarrow> data b)) = Some d"
    by (auto simp: imageData_def split: option.splits)
  from c have "c \<in> set cs" by (auto simp: at_def split: if_splits)
  with assms cs have "\<not> candidateHasImage c"
    by (auto simp: carriesImage_def list_ex_iff)
  with ct ps have "\<not> list_ex partHasImage ps"
    by (simp add: candidateHasImage_def)
  then have "d = []" using f by (rule find_no_image)
  with Some show ?thesis by (simp add: truthy_def)
qed

text \<open>
  Claim C3. When the active page is not the master page and has no keyword,
  \<open>generateMindMap\<close> in either mode and in both variants stores the validation
  message and returns: no request is sent to the AI backend, and nothing else of the
  state changes, so the document is as it was.
\<close>

theorem validation_failure_no_io:
  "(activePage (present (editor state)) = Some page \<and> \<not> passesValidation page \<longrightarrow>
      generateMindMap env m (state, ui) =
        Inr ((state\<lparr>errorMessage := Some validationMessage\<rparr>, ui), [])) \<and>
   (activePage s = Some page \<and> \<not> passesValidation page \<longrightarrow>
      generateMindMap_Home env m s =
        Inr (s\<lparr>errorMessage_h := validationMessage, showErrorModal := True\<rparr>, []))"
  by (simp add: generateMindMap_def generateMindMap_Home_def passesValidation_def Let_def)

theorem validation_failure_no_io_witness:
  "generateMindMap (browser (\<lambda>r. Resolves imageResponse)) evolve (editorOn 2, focusOn [] [0]) =
     Inr (((editorOn 2)\<lparr>errorMessage := Some validationMessage\<rparr>, focusOn [] [0]), []) \<and>
   generateMindMap_Home (browser (\<lambda>r. Resolves imageResponse)) rethink
       (homeOn 2 (focusOn [] [0])) =
     Inr ((homeOn 2 (focusOn [] [0]))
            \<lparr>errorMessage_h := validationMessage, showErrorModal := True\<rparr>, [])"
proof -
  have a: "activePage (present (editor (editorOn 2))) = Some emptyPage"
    by code_simp
  have b: "activePage (homeOn 2 (focusOn [] [0])) = Some emptyPage"
    by code_simp
  have c: "\<not> passesValidation emptyPage"
    by code_simp
  from validation_failure_no_io
    [where state = "editorOn 2" and page = emptyPage and m = evolve and ui = "focusOn [] [0]"
       and env = "browser (\<lambda>r. Resolves imageResponse)"]
    a c
  have 1: "generateMindMap (browser (\<lambda>r. Resolves imageResponse)) evolve
             (editorOn 2, focusOn [] [0]) =
           Inr (((editorOn 2)\<lparr>errorMessage := Some validationMessage\<rparr>, focusOn [] [0]), [])"
    by blast
  from validation_failure_no_io
    [where s = "homeOn 2 (focusOn [] [0])" and page = emptyPage and m = rethink
       and env = "browser (\<lambda>r. Resolves imageResponse)"]
    b c
  have 2: "generateMindMap_Home (browser (\<lambda>r. Resolves imageResponse)) rethink
       (homeOn 2 (focusOn [] [0])) =
     Inr ((homeOn 2 (focusOn [] [0]))
            \<lparr>errorMessage_h := validationMessage, showErrorModal := True\<rparr>, [])"
    by blast
  from 1 2 show ?thesis by blast
qed

lemma messages_distinct:
  "noImageMessage \<noteq> validationMessage"
  "noImageMessage \<noteq> ''An unexpected error occurred.''"
  by (simp_all add: noImageMessage_def validationMessage_def)

text \<open>
  Claim C6. When the page passes the keyword check, a base image is available, and the
  backend resolves with a response that carries no image payload, the invocation ends
  with the edit history (in \<open>Home\<close>: the pages and the active index) unchanged, so
  the \<open>generatedImage\<close> of every page is what it was, and with the no-image message
  stored. That message differs from the validation message and from the fallback text
  of the error branch.
\<close>

theorem no_image_leaves_document:
  "(activePage (present (editor state)) = Some page \<and> passesValidation page \<and>
    drawingData env m page = Some drawing \<and>
    generateContent env
      (request None ui drawing
         (aiPrompt (pages (present (editor state))) page m (focusedItems ui))) =
      Resolves response \<and>
    \<not> carriesImage response \<longrightarrow>
      (case generateMindMap env m (state, ui) of
         Inl e \<Rightarrow> False
       | Inr ((state', ui'), requests) \<Rightarrow>
           editor state' = editor state \<and> errorMessage state' = Some noImageMessage \<and>
           length requests = 1)) \<and>
   (activePage s = Some page \<and> passesValidation page \<and>
    drawingData env m page = Some drawing \<and>
    generateContent env
      (request (Some ''user'') (uiState s) drawing
         (aiPrompt (pages s) page m (focusedItems (uiState s)))) =
      Resolves response \<and>
    \<not> carriesImage response \<longrightarrow>
      (case generateMindMap_Home env m s of
         Inl e \<Rightarrow> False
       | Inr (s', requests) \<Rightarrow>
           pages s' = pages s \<and> activePageIndex s' = activePageIndex s \<and>
           errorMessage_h s' = noImageMessage \<and> showErrorModal s' \<and>
           length requests = 1)) \<and>
   noImageMessage \<noteq> validationMessage \<and>
   noImageMessage \<noteq> ''An unexpected error occurred.''"
proof (intro conjI impI)
  assume h: "activePage (present (editor state)) = Some page \<and> passesValidation page \<and>
    drawingData env m page = Some drawing \<and>
    generateContent env
      (request None ui drawing
         (aiPrompt (pages (present (editor state))) page m (focusedItems ui))) =
      Resolves response \<and>
    \<not> carriesImage response"
  then have "\<not> truthy (imageData response)" by (simp add: no_image_falsy)
  with h show "case generateMindMap env m (state, ui) of
         Inl e \<Rightarrow> False
       | Inr ((state', ui'), requests) \<Rightarrow>
           editor state' = editor state \<and> errorMessage state' = Some noImageMessage \<and>
           length requests = 1"
    by (auto simp add: generateMindMap_def Let_def passesValidation_def)
next
  assume h: "activePage s = Some page \<and> passesValidation page \<and>
    drawingData env m page = Some drawing \<and>
    generateContent env
      (request (Some ''user'') (uiState s) drawing
         (aiPrompt (pages s) page m (focusedItems (uiState s)))) =
      Resolves response \<and>
    \<not> carriesImage response"
  then have "\<not> truthy (imageData response)" by (simp add: no_image_falsy)
  with h show "case generateMindMap_Home env m s of
         Inl e \<Rightarrow> False
       | Inr (s', requests) \<Rightarrow>
           pages s' = pages s \<and> activePageIndex s' = activePageIndex s \<and>
           errorMessage_h s' = noImageMessage \<and> showErrorModal s' \<and>
           length requests = 1"
    by (auto simp add: generateMindMap_Home_def Let_def passesValidation_def)
qed (rule messages_distinct)+

theorem no_image_leaves_document_witness:
  "(case generateMindMap (browser (\<lambda>r. Resolves textOnlyResponse)) rethink
          (editorOn 1, focusOn [0] []) of
      Inl e \<Rightarrow> False
    | Inr ((state', ui'), requests) \<Rightarrow>
        editor state' = editor (editorOn 1) \<and> errorMessage state' = Some noImageMessage \<and>
        length requests = 1) \<and>
   (case generateMindMap_Home (browser (\<lambda>r. Resolves textOnlyResponse)) evolve
          (homeOn 1 (focusOn [0] [])) of
      Inl e \<Rightarrow> False
    | Inr (s', requests) \<Rightarrow>
        pages s' = pages (homeOn 1 (focusOn [0] [])) \<and>
        activePageIndex s' = activePageIndex (homeOn 1 (focusOn [0] [])) \<and>
        errorMessage_h s' = noImageMessage \<and> showErrorModal s' \<and>
        length requests = 1) \<and>
   \<not> carriesImage textOnlyResponse"
proof -
  have a: "activePage (present (editor (editorOn 1))) = Some ideasPage"
    and a': "activePage (homeOn 1 (focusOn [0] [])) = Some ideasPage"
    and b: "passesValidation ideasPage"
    and c: "drawingData (browser (\<lambda>r. Resolves textOnlyResponse)) rethink ideasPage =
            Some (Some ''BBBB'')"
    and c': "drawingData (browser (\<lambda>r. Resolves textOnlyResponse)) evolve ideasPage =
            Some (Some ''BBBB'')"
    and d: "generateContent (browser (\<lambda>r. Resolves textOnlyResponse)) r =
            Resolves textOnlyResponse"
    and e: "\<not> carriesImage textOnlyResponse" for r
    by code_simp+
  from no_image_leaves_document
    [where state = "editorOn 1" and page = ideasPage and m = rethink
       and ui = "focusOn [0] []" and env = "browser (\<lambda>r. Resolves textOnlyResponse)"
       and drawing = "Some ''BBBB''" and response = textOnlyResponse]
    a b c d e
  have 1: "case generateMindMap (browser (\<lambda>r. Resolves textOnlyResponse)) rethink
          (editorOn 1, focusOn [0] []) of
      Inl e \<Rightarrow> False
    | Inr ((state', ui'), requests) \<Rightarrow>
        editor state' = editor (editorOn 1) \<and> errorMessage state' = Some noImageMessage \<and>
        length requests = 1"
    by blast
  from no_image_leaves_document
    [where s = "homeOn 1 (focusOn [0] [])" and page = ideasPage and m = evolve
       and env = "browser (\<lambda>r. Resolves textOnlyResponse)"
       and drawing = "Some ''BBBB''" and response = textOnlyResponse]
    a' b c' d e
  have 2: "case generateMindMap_Home (browser (\<lambda>r. Resolves textOnlyResponse)) evolve
          (homeOn 1 (focusOn [0] [])) of
      Inl e \<Rightarrow> False
    | Inr (s', requests) \<Rightarrow>
        pages s' = pages (homeOn 1 (focusOn [0] [])) \<and>
        activePageIndex s' = activePageIndex (homeOn 1 (focusOn [0] [])) \<and>
        errorMessage_h s' = noImageMessage \<and> showErrorModal s' \<and>
        length requests = 1"
    by blast
  from 1 2 e show ?thesis by blast
qed





section \<open>Properties of the page handlers\<close>

lemma mapAt_eq: "mapAt i f xs = (if i < length xs then xs[i := f (xs ! i)] else xs)"
  by (rule nth_equalityI) (auto simp: mapAt_def nth_enumerate_eq nth_list_update)

lemma at_mapAt: "at xs i = Some x \<Longrightarrow> at (mapAt i f xs) i = Some (f x)"
  by (auto simp: at_def mapAt_eq split: if_splits)

lemma filter_enumerate:
  "map snd (filter (\<lambda>(i, x). i \<noteq> d) (enumerate n xs)) =
     (if d < n then xs else take (d - n) xs @ drop (Suc (d - n)) xs)"
proof (induction xs arbitrary: n)
  case Nil
  then show ?case by simp
next
  case (Cons x xs)
  show ?case
  proof (cases "d = n")
    case True
    then show ?thesis using Cons [of "Suc n"] by simp
  next
    case False
    show ?thesis
    proof (cases "d < n")
      case True
      then show ?thesis using Cons [of "Suc n"] by simp
    next
      case ge: False
      with False have gt: "n < d" by simp
      then have e: "d - n = Suc (d - Suc n)" by simp
      show ?thesis using Cons [of "Suc n"] gt False by (simp add: e)
    qed
  qed
qed

lemma filterIndex_eq: "filterIndex d xs = take d xs @ drop (Suc d) xs"
  by (simp add: filterIndex_def filter_enumerate)

lemma activePage_update:
  assumes "activePage s = Some page"
  shows "activePage (updateActivePage f s) = Some (f page)"
  using assms by (simp add: activePage_def updateActivePage_def at_mapAt)

lemma save_new_version:
  assumes "activePage s = Some page" "generatedImage page = Some img" "img \<noteq> []"
    "img \<notin> set (versions page)"
  shows "handleSaveVersion s = updateActivePage (\<lambda>p. p\<lparr>versions := versions page @ [img]\<rparr>) s"
  using assms by (simp add: handleSaveVersion_def)

lemma save_present_version:
  assumes "activePage s = Some page" "generatedImage page = Some img" "img \<in> set (versions page)"
  shows "handleSaveVersion s = s"
  using assms by (simp add: handleSaveVersion_def)

lemma save_twice: "handleSaveVersion (handleSaveVersion s) = handleSaveVersion s"
proof (cases "activePage s")
  case None
  then show ?thesis by (simp add: handleSaveVersion_def)
next
  case (Some page)
  show ?thesis
  proof (cases "generatedImage page")
    case None
    with Some show ?thesis by (simp add: handleSaveVersion_def)
  next
    case (Some img)
    note img = this
    show ?thesis
    proof (cases "img = [] \<or> img \<in> set (versions page)")
      case True
      with \<open>activePage s = Some page\<close> img show ?thesis
        by (auto simp: handleSaveVersion_def)
    next
      case False
      let ?f = "\<lambda>p. p\<lparr>versions := versions page @ [img]\<rparr>"
      from False \<open>activePage s = Some page\<close> img
      have eq: "handleSaveVersion s = updateActivePage ?f s"
        by (simp add: save_new_version)
      have "activePage (updateActivePage ?f s) = Some (?f page)"
        using \<open>activePage s = Some page\<close> by (rule activePage_update)
      moreover have "generatedImage (?f page) = Some img" using img by simp
      moreover have "img \<in> set (versions (?f page))" by simp
      ultimately have "handleSaveVersion (updateActivePage ?f s) = updateActivePage ?f s"
        by (rule save_present_version)
      with eq show ?thesis by simp
    qed
  qed
qed

text \<open>
  Claim C9. Saving a version twice is the same as saving it once. When the current
  image of the active page is already among its versions, \<open>handleSaveVersion\<close> leaves
  the state unchanged; when it is a non-empty image that is not yet among them, the
  call appends it, after which it occurs exactly once, so that a further call changes
  nothing and the list never gains a second copy of the current image.
\<close>

theorem save_version_idempotent:
  "handleSaveVersion (handleSaveVersion s) = handleSaveVersion s \<and>
   (activePage s = Some page \<and> generatedImage page = Some img \<and>
    img \<in> set (versions page) \<longrightarrow> handleSaveVersion s = s) \<and>
   (activePage s = Some page \<and> generatedImage page = Some img \<and> img \<noteq> [] \<and>
    img \<notin> set (versions page) \<longrightarrow>
      activePage (handleSaveVersion s) = Some (page\<lparr>versions := versions page @ [img]\<rparr>) \<and>
      count_list (versions page @ [img]) img = 1)"
proof (intro conjI impI)
  show "handleSaveVersion (handleSaveVersion s) = handleSaveVersion s"
    by (rule save_twice)
next
  assume "activePage s = Some page \<and> generatedImage page = Some img \<and>
    img \<in> set (versions page)"
  then show "handleSaveVersion s = s" by (simp add: save_present_version)
next
  assume h: "activePage s = Some page \<and> generatedImage page = Some img \<and> img \<noteq> [] \<and>
    img \<notin> set (versions page)"
  then show "activePage (handleSaveVersion s) = Some (page\<lparr>versions := versions page @ [img]\<rparr>)"
    by (simp add: save_new_version activePage_update)
  from h show "count_list (versions page @ [img]) img = 1"
    by (simp add: count_list_0_iff)
qed

theorem save_version_idempotent_witness:
  "activePage homeDrawn = Some drawnPage \<and>
   activePage (handleSaveVersion homeDrawn) =
     Some (drawnPage\<lparr>versions := versions drawnPage @ [''data:image/png;base64,iVBOR'']\<rparr>) \<and>
   handleSaveVersion (handleSaveVersion homeDrawn) = handleSaveVersion homeDrawn \<and>
   handleSaveVersion homeDrawn \<noteq> homeDrawn"
proof -
  have a: "activePage homeDrawn = Some drawnPage"
    and b: "generatedImage drawnPage = Some ''data:image/png;base64,iVBOR''"
    and c: "''data:image/png;base64,iVBOR'' \<noteq> []"
    and d: "''data:image/png;base64,iVBOR'' \<notin> set (versions drawnPage)"
    and e: "handleSaveVersion homeDrawn \<noteq> homeDrawn"
    by code_simp+
  from save_version_idempotent
    [where s = homeDrawn and page = drawnPage and img = "''data:image/png;base64,iVBOR''"]
    a b c d e
  show ?thesis by blast
qed

text \<open>
  Claim C10. In a state whose active index is within the page list, deleting the page at
  an index other than zero, within the list and with the question confirmed, removes
  that page and leaves the active index within the shorter list. When the deleted page
  is not the active one, the active page is the same page as before; when it is, the
  page before it becomes active.
\<close>

theorem delete_page_keeps_active_index:
  assumes "activePageIndex s < length (pages s)" and "d \<noteq> 0"
    and "at (pages s) d = Some page" and "confirm (confirmDelete (name page))"
  shows "case handleDeletePage confirm d s of
           Inl e \<Rightarrow> False
         | Inr s' \<Rightarrow>
             pages s' = take d (pages s) @ drop (Suc d) (pages s) \<and>
             activePageIndex s' < length (pages s') \<and>
             (d \<noteq> activePageIndex s \<longrightarrow> activePage s' = activePage s) \<and>
             (d = activePageIndex s \<longrightarrow> activePageIndex s' = d - 1)"
proof -
  from assms(3) have d: "d < length (pages s)"
    by (simp add: at_def split: if_splits)
  let ?a = "activePageIndex s"
  let ?n = "if d = ?a then max 0 (d - 1) else if d < ?a then ?a - 1 else ?a"
  have res: "handleDeletePage confirm d s =
          Inr (s\<lparr>pages := take d (pages s) @ drop (Suc d) (pages s), activePageIndex := ?n\<rparr>)"
    using assms by (simp add: handleDeletePage_def filterIndex_eq Let_def)
  have len: "length (take d (pages s) @ drop (Suc d) (pages s)) = length (pages s) - 1"
    using d by simp
  have bound: "?n < length (pages s) - 1"
    using assms(1,2) d by auto
  have same: "d \<noteq> ?a \<Longrightarrow> (take d (pages s) @ drop (Suc d) (pages s)) ! ?n = pages s ! ?a"
    using assms(1,2) d by (auto simp: nth_append min_def)
  show ?thesis
    using res len bound same assms(1) by (auto simp: activePage_def at_def)
qed

theorem delete_page_keeps_active_index_witness:
  "activePage (homeOn 2 (focusOn [] [])) = Some emptyPage \<and>
   (case handleDeletePage (\<lambda>question. True) 1 (homeOn 2 (focusOn [] [])) of
      Inl e \<Rightarrow> False
    | Inr s' \<Rightarrow>
        pages s' = take 1 (pages (homeOn 2 (focusOn [] []))) @
                   drop (Suc 1) (pages (homeOn 2 (focusOn [] []))) \<and>
        activePageIndex s' < length (pages s') \<and>
        (1 \<noteq> activePageIndex (homeOn 2 (focusOn [] [])) \<longrightarrow>
           activePage s' = activePage (homeOn 2 (focusOn [] []))) \<and>
        (1 = activePageIndex (homeOn 2 (focusOn [] [])) \<longrightarrow> activePageIndex s' = 1 - 1))"
proof -
  have a: "activePageIndex (homeOn 2 (focusOn [] [])) < length (pages (homeOn 2 (focusOn [] [])))"
    and b: "(1::nat) \<noteq> 0"
    and c: "at (pages (homeOn 2 (focusOn [] []))) 1 = Some ideasPage"
    and d: "activePage (homeOn 2 (focusOn [] [])) = Some emptyPage"
    by code_simp+
  have e: "(\<lambda>question. True) (confirmDelete (name ideasPage))"
    by simp
  from delete_page_keeps_active_index
    [of "homeOn 2 (focusOn [] [])" 1 ideasPage "\<lambda>question. True", OF a b c e] d
  show ?thesis by blast
qed


end
